theory Spec2Isabelle
  imports Complex_Main
begin

section \<open>Arrays, as the plotting module uses them\<close>

text \<open>
  \<^verbatim>\<open>qlipper/postprocess/plot_mee.py\<close> works on two-dimensional arrays: a state history
  of \<open>N\<close> samples is an array of shape \<open>(N, w)\<close>, one row per sample. An array is modelled
  as the list of its rows, each row the list of its \<open>w\<close> entries; every array of shape
  \<open>(0, w)\<close> is the empty list. The entries are of an arbitrary type with \<open>0\<close>, \<open>1\<close> and
  \<open>-\<close>: no law of arithmetic is assumed of them, so what is proved of the data flow holds
  for floating-point entries as well as for exact ones.

  The array library raises where the shapes do not fit; these are the two errors below.
\<close>

type_synonym 'a array2 = "'a list list"

datatype error = IndexError | BroadcastError

definition bind_err :: "error + 'a \<Rightarrow> ('a \<Rightarrow> error + 'b) \<Rightarrow> error + 'b" where
  "bind_err r f = (case r of Inl e \<Rightarrow> Inl e | Inr v \<Rightarrow> f v)"

fun sequence_err :: "(error + 'a) list \<Rightarrow> error + 'a list" where
  "sequence_err [] = Inr []"
| "sequence_err (r # rs) =
     bind_err r (\<lambda>v. bind_err (sequence_err rs) (\<lambda>vs. Inr (v # vs)))"

text \<open>\<^verbatim>\<open>jnp.zeros_like(y)\<close>: the shape of \<open>y\<close>, every entry zero.\<close>

definition zeros_like :: "'a::zero array2 \<Rightarrow> 'a array2" where
  "zeros_like y = map (\<lambda>r. replicate (length r) 0) y"

text \<open>
  \<^verbatim>\<open>y[:, i]\<close> for a constant column \<open>i\<close>: an axis of size 0 cannot be indexed
  (IndexError); a column past the last one reads the last one (the array library clamps
  a read out of range).
\<close>

definition get_col :: "nat \<Rightarrow> 'a array2 \<Rightarrow> error + 'a list" where
  "get_col i y =
     (if \<exists>r \<in> set y. r = [] then Inl IndexError
      else Inr (map (\<lambda>r. r ! min i (length r - 1)) y))"

text \<open>
  \<^verbatim>\<open>y.at[:, i].set(v)\<close> for a scalar \<open>v\<close>: the copy of \<open>y\<close> whose column \<open>i\<close> is \<open>v\<close> in every
  row. An axis of size 0 cannot be indexed; an update of a column past the last one is
  dropped.
\<close>

definition set_col :: "nat \<Rightarrow> 'a \<Rightarrow> 'a array2 \<Rightarrow> error + 'a array2" where
  "set_col i v y =
     (if \<exists>r \<in> set y. r = [] then Inl IndexError
      else Inr (map (\<lambda>r. if i < length r then r[i := v] else r) y))"

text \<open>
  \<^verbatim>\<open>y.at[:, i].set(vs)\<close> for a vector \<open>vs\<close>, one value per row (a vector of length 1 is
  broadcast to every row; any other length that is not the number of rows is refused).
\<close>

definition set_col_vec :: "nat \<Rightarrow> 'a list \<Rightarrow> 'a array2 \<Rightarrow> error + 'a array2" where
  "set_col_vec i vs y =
     (if \<exists>r \<in> set y. r = [] then Inl IndexError
      else if length vs = length y then
        Inr (map2 (\<lambda>v r. if i < length r then r[i := v] else r) vs y)
      else if length vs = 1 then
        Inr (map (\<lambda>r. if i < length r then r[i := hd vs] else r) y)
      else Inl BroadcastError)"

text \<open>
  An elementwise binary operation with the library's broadcasting along one axis: equal
  lengths pair up, a length of 1 is stretched to the other length, anything else is
  refused.
\<close>

definition broadcast1 :: "('a \<Rightarrow> 'b \<Rightarrow> error + 'c) \<Rightarrow> 'a list \<Rightarrow> 'b list \<Rightarrow> error + 'c list" where
  "broadcast1 f xs ys =
     (if length xs = length ys then sequence_err (map2 f xs ys)
      else if length xs = 1 then sequence_err (map (f (hd xs)) ys)
      else if length ys = 1 then sequence_err (map (\<lambda>x. f x (hd ys)) xs)
      else Inl BroadcastError)"

text \<open>\<^verbatim>\<open>a - b\<close> on two-dimensional arrays.\<close>

definition array_sub :: "'a::minus array2 \<Rightarrow> 'a array2 \<Rightarrow> error + 'a array2" where
  "array_sub a b = broadcast1 (broadcast1 (\<lambda>x y. Inr (x - y))) a b"

text \<open>\<^verbatim>\<open>xs[i]\<close> on a Python sequence, for an index that is not negative.\<close>

definition py_index :: "'a list \<Rightarrow> nat \<Rightarrow> error + 'a" where
  "py_index xs i = (if i < length xs then Inr (xs ! i) else Inl IndexError)"

section \<open>The collaborators of the module\<close>

text \<open>
  The module imports its configuration, its constants, the frame converters and the
  ephemeris from other modules of the package. They are taken as they are used:

  \<^item> \<^verbatim>\<open>SimConfig\<close>: the fields the two plotting functions read of it;
  \<^item> \<^verbatim>\<open>Params\<close>: the Moon's ephemeris evaluator, from a time to a Cartesian state;
  \<^item> \<^verbatim>\<open>qlipper.constants\<close> and \<^verbatim>\<open>qlipper.converters\<close>: the two gravitational parameters
    and the two batch converters, each an arbitrary function of a batch and a
    gravitational parameter.
\<close>

record 'a SimConfig =
  steering_law :: string
  y_target :: "'a list"

record ('t, 'a) Params =
  moon_ephem_evaluate :: "'t \<Rightarrow> 'a list"

record 'a collaborators =
  MU_EARTH :: 'a
  MU_MOON :: 'a
  batch_mee_to_cartesian :: "'a array2 \<Rightarrow> 'a \<Rightarrow> 'a array2"
  batch_cartesian_to_mee :: "'a array2 \<Rightarrow> 'a \<Rightarrow> 'a array2"

text \<open>\<^verbatim>\<open>jax.vmap(f)(t)\<close>: \<open>f\<close> at every entry of \<open>t\<close>, stacked in order.\<close>

definition vmap :: "('t \<Rightarrow> 'a list) \<Rightarrow> 't list \<Rightarrow> 'a array2" where
  "vmap f t = map f t"

section \<open>\<^verbatim>\<open>plot_elements_mee\<close>\<close>

text \<open>
  The constant target of lines 58-60 and 66-68:
  \<^verbatim>\<open>
  y_target = jnp.zeros_like(y)
  for i in range(5):
      y_target = y_target.at[:, i].set(cfg.y_target[i])
  \<close>
\<close>

fun set_target_cols :: "'a list \<Rightarrow> nat list \<Rightarrow> 'a array2 \<Rightarrow> error + 'a array2" where
  "set_target_cols tgt [] yt = Inr yt"
| "set_target_cols tgt (i # is) yt =
     bind_err (py_index tgt i) (\<lambda>v.
     bind_err (set_col i v yt) (\<lambda>yt'.
     set_target_cols tgt is yt'))"

definition constant_target :: "'a::zero SimConfig \<Rightarrow> 'a array2 \<Rightarrow> error + 'a array2" where
  "constant_target cfg y = set_target_cols (y_target cfg) [0..<5] (zeros_like y)"

text \<open>
  The re-centring on the Moon of lines 54-56:
  \<^verbatim>\<open>
  rel_state = cart_state - moon_state
  y = batch_cartesian_to_mee(rel_state, MU_MOON)
  y = y.at[:, 0].set(y[:, 0] - 1.0)
  \<close>
\<close>

definition sub_one_col0 :: "'a::{one,minus} array2 \<Rightarrow> error + 'a array2" where
  "sub_one_col0 y = bind_err (get_col 0 y) (\<lambda>c. set_col_vec 0 (map (\<lambda>x. x - 1) c) y)"

definition moon_relative ::
  "'a::{one,minus} collaborators \<Rightarrow> 'a array2 \<Rightarrow> 'a array2 \<Rightarrow> error + 'a array2" where
  "moon_relative env cart_state moon_state =
     bind_err (array_sub cart_state moon_state) (\<lambda>rel_state.
     sub_one_col0 (batch_cartesian_to_mee env rel_state (MU_MOON env)))"

text \<open>
  What the function hands to the figure: the element history \<open>y\<close> and the target history
  \<open>y_target\<close> (their columns 0 to 4 are drawn against the time axis) and the title. The
  drawing calls themselves are not part of the model.
\<close>

record 'a elements_figure =
  plotted_y :: "'a array2"
  plotted_y_target :: "'a array2"
  titlestr :: string

definition title_of :: "bool \<Rightarrow> string" where
  "title_of wrt_moon =
     ''Modified Equinoctial Elements'' @
     (if wrt_moon then '' (Selenocentric)'' else '' (Geocentric)'')"

definition plot_elements_mee ::
  "'a::{zero,one,minus} collaborators \<Rightarrow> 't list \<Rightarrow> 'a array2 \<Rightarrow> 'a SimConfig \<Rightarrow>
     ('t, 'a) Params \<Rightarrow> bool \<Rightarrow> error + 'a elements_figure" where
  "plot_elements_mee env t y cfg params wrt_moon =
     (let targeting_moon = (steering_law cfg = ''bbq_law'') in
      if targeting_moon then
        (let moon_state = vmap (moon_ephem_evaluate params) t;
             cart_state = batch_mee_to_cartesian env y (MU_EARTH env) in
         if wrt_moon then
           bind_err (moon_relative env cart_state moon_state) (\<lambda>y'.
           bind_err (constant_target cfg y') (\<lambda>yt.
           Inr \<lparr>plotted_y = y', plotted_y_target = yt, titlestr = title_of wrt_moon\<rparr>))
         else
           Inr \<lparr>plotted_y = y,
                plotted_y_target = batch_cartesian_to_mee env moon_state (MU_EARTH env),
                titlestr = title_of wrt_moon\<rparr>)
      else
        bind_err (constant_target cfg y) (\<lambda>yt.
        Inr \<lparr>plotted_y = y, plotted_y_target = yt, titlestr = title_of wrt_moon\<rparr>))"

text \<open>
  The row that the constant target puts under a row of width \<open>w\<close>: the first five entries
  of \<^verbatim>\<open>cfg.y_target\<close>, zeros after them, cut to the width.
\<close>

definition const_row :: "'a::zero list \<Rightarrow> nat \<Rightarrow> 'a list" where
  "const_row tgt w = take w (take 5 tgt @ replicate (w - 5) 0)"

text \<open>
  The reference shifter in the words of the specification: convert the history to
  Cartesian in the Earth's frame, subtract the Moon's state sample by sample, convert the
  difference back with the Moon's gravitational parameter, subtract 1 from the first
  element of every sample.
\<close>

definition reference_shift ::
  "'a::{one,minus} collaborators \<Rightarrow> 'a array2 \<Rightarrow> 'a array2 \<Rightarrow> 'a array2" where
  "reference_shift env y moon_state =
     map (\<lambda>r. r[0 := r ! 0 - 1])
       (batch_cartesian_to_mee env
          (map2 (map2 (-)) (batch_mee_to_cartesian env y (MU_EARTH env)) moon_state)
          (MU_MOON env))"

section \<open>\<^verbatim>\<open>plot_trajectory_mee\<close>\<close>

text \<open>
  The entries are floating-point numbers, each of them a real number. \<^verbatim>\<open>mee[-1, -1]\<close> is
  the last entry of the last row; it does not exist in an array with no row or no column.
\<close>

definition last_entry :: "'a array2 \<Rightarrow> error + 'a" where
  "last_entry y = (if y = [] \<or> last y = [] then Inl IndexError else Inr (last (last y)))"

text \<open>
  Line 135, \<^verbatim>\<open>mee[-1, -1] // (2 * np.pi)\<close>, is floating-point arithmetic in the precision
  of the array: the floor division of the array library, and the floating-point number
  that \<^verbatim>\<open>2 * np.pi\<close> is. Both are taken as they are, an arbitrary operation and an
  arbitrary number: nothing is assumed of how they round.
\<close>

record float_arith =
  floor_divide :: "real \<Rightarrow> real \<Rightarrow> real"
  two_pi :: real

text \<open>
  \<^verbatim>\<open>np.linspace\<close> computes in double precision, whatever the array is: every operation
  gives the double nearest to the exact result, and of two doubles equally near the one
  with the even mantissa. For \<open>2\<^sup>e \<le> \<bar>x\<bar> < 2\<^sup>e\<^sup>+\<^sup>1\<close> the doubles around \<open>x\<close> are the whole
  multiples of \<open>2\<^sup>e\<^sup>-\<^sup>5\<^sup>2\<close>. (Overflow and subnormal numbers are left out: the numbers
  rounded here are lengths of arrays and their fiftieths.)
\<close>

definition round_half_even :: "real \<Rightarrow> int" where
  "round_half_even x =
     (let f = \<lfloor>x\<rfloor>; r = x - of_int f in
      if r < 1 / 2 then f
      else if 1 / 2 < r then f + 1
      else if even f then f else f + 1)"

definition float64 :: "real \<Rightarrow> real" where
  "float64 x =
     (if x = 0 then 0
      else let e = \<lfloor>log 2 \<bar>x\<bar>\<rfloor> in
        sgn x * of_int (round_half_even (\<bar>x\<bar> * 2 powr (52 - of_int e))) *
          2 powr (of_int e - 52))"

definition NUM_SEGMENTS :: nat where
  "NUM_SEGMENTS = 50"

text \<open>
  \<^verbatim>\<open>np.linspace(0, M, NUM_SEGMENTS + 1, dtype=int)\<close>, in doubles: the step is
  \<open>M / NUM_SEGMENTS\<close>, the values are \<open>i * step\<close> for \<open>i = 0, \<dots>, NUM_SEGMENTS\<close>, the last of
  them replaced by the stop value \<open>M\<close> itself, and each is cut to an integer. So a
  breakpoint can fall one below the exact \<open>i * M div NUM_SEGMENTS\<close>, where the product
  is rounded down to just under a whole number.
\<close>

definition idx_breakpoints :: "nat \<Rightarrow> nat list" where
  "idx_breakpoints M =
     (let stop = float64 (real M);
          step = float64 (stop / real NUM_SEGMENTS)
      in map (\<lambda>i. nat \<lfloor>float64 (real i * step)\<rfloor>) [0..<NUM_SEGMENTS] @ [nat \<lfloor>stop\<rfloor>])"

text \<open>\<^verbatim>\<open>xs[a:b]\<close> for bounds that are not negative: a bound past the end is cut to the end.\<close>

definition py_slice :: "nat \<Rightarrow> nat \<Rightarrow> 'b list \<Rightarrow> 'b list" where
  "py_slice a b xs = drop a (take b xs)"

text \<open>
  Line 164, \<^verbatim>\<open>slice(idx_breakpoints[i], idx_breakpoints[i + 1] + 1)\<close>, applied to the rows
  of the path.
\<close>

definition plot_slice :: "'b list \<Rightarrow> nat \<Rightarrow> 'b list" where
  "plot_slice cart i =
     py_slice (idx_breakpoints (length cart) ! i)
       (idx_breakpoints (length cart) ! (i + 1) + 1) cart"

definition trajectory_segments :: "'b list \<Rightarrow> 'b list list" where
  "trajectory_segments cart = map (plot_slice cart) [0..<NUM_SEGMENTS]"

text \<open>
  The keyword arguments of a line: a number, a colour of the colour map (red, green, blue,
  alpha) or a name such as \<^verbatim>\<open>"red"\<close>. Lines 160-161:
  \<^verbatim>\<open>
  default_plot_kwargs = {"linewidth": 1, "color": cm(i / NUM_SEGMENTS)}
  actual_plot_kwargs = default_plot_kwargs | plot_kwargs
  \<close>
  In a union of dictionaries the right operand wins.
\<close>

datatype kwarg = Number real | RGBA real real real real | Name string

type_synonym kwargs = "string \<rightharpoonup> kwarg"

type_synonym colormap = "real \<Rightarrow> kwarg"

definition default_plot_kwargs :: "colormap \<Rightarrow> nat \<Rightarrow> kwargs" where
  "default_plot_kwargs cm i =
     [''linewidth'' \<mapsto> Number 1, ''color'' \<mapsto> cm (real i / real NUM_SEGMENTS)]"

definition actual_plot_kwargs :: "colormap \<Rightarrow> kwargs \<Rightarrow> nat \<Rightarrow> kwargs" where
  "actual_plot_kwargs cm plot_kwargs i = default_plot_kwargs cm i ++ plot_kwargs"

text \<open>
  One call of \<^verbatim>\<open>ax.plot\<close>: the three coordinate columns of the slice and the keyword
  arguments.
\<close>

record line3d =
  line_x :: "real list"
  line_y :: "real list"
  line_z :: "real list"
  line_kwargs :: kwargs

definition plot_segment :: "colormap \<Rightarrow> kwargs \<Rightarrow> real array2 \<Rightarrow> nat \<Rightarrow> error + line3d" where
  "plot_segment cm plot_kwargs cart i =
     (let seg = plot_slice cart i in
      bind_err (get_col 0 seg) (\<lambda>xs.
      bind_err (get_col 1 seg) (\<lambda>ys.
      bind_err (get_col 2 seg) (\<lambda>zs.
      Inr \<lparr>line_x = xs, line_y = ys, line_z = zs,
           line_kwargs = actual_plot_kwargs cm plot_kwargs i\<rparr>))))"

text \<open>
  What the function hands to the figure: the orbit count that scales the labels of the
  colour bar, and the fifty lines. \<^verbatim>\<open>interpolate_mee\<close> is imported from another module and
  is taken as an arbitrary function; so is the colour map \<^verbatim>\<open>cm\<close>. The sphere, the axis
  labels and the overlay of the Moon's path are not part of the model.
\<close>

record trajectory_figure =
  n_orbits :: real
  lines :: "line3d list"

type_synonym 't interpolator = "'t list \<Rightarrow> real array2 \<Rightarrow> nat \<Rightarrow> 't list \<times> real array2"

definition plot_trajectory_mee ::
  "float_arith \<Rightarrow> real collaborators \<Rightarrow> 't interpolator \<Rightarrow> colormap \<Rightarrow> 't list \<Rightarrow>
     real array2 \<Rightarrow> kwargs \<Rightarrow> error + trajectory_figure" where
  "plot_trajectory_mee arith env interpolate_mee cm t mee plot_kwargs =
     bind_err (last_entry mee) (\<lambda>L.
       let n = floor_divide arith L (two_pi arith);
           (t_interp, mee_interp) = interpolate_mee t mee 100;
           cart = batch_mee_to_cartesian env mee_interp (MU_EARTH env)
       in bind_err (sequence_err (map (plot_segment cm plot_kwargs cart) [0..<NUM_SEGMENTS]))
            (\<lambda>ls. Inr \<lparr>n_orbits = n, lines = ls\<rparr>))"


definition colour_of :: "error + trajectory_figure \<Rightarrow> nat \<Rightarrow> error + kwarg option" where
  "colour_of r i =
     (case r of Inl e \<Rightarrow> Inl e | Inr fig \<Rightarrow> Inr (line_kwargs (lines fig ! i) ''color''))"

text \<open>
  Modelled from the spec: \<^verbatim>\<open>interpolate_mee\<close> (\<^verbatim>\<open>qlipper/postprocess/interpolation.py\<close>
  is not among the sources). The specification gives the length of its output: the
  sweep of the true longitude is divided into \<open>seg_per_orbit\<close> samples per \<open>2\<pi>\<close> of sweep,
  and the number of samples, revolutions times \<open>seg_per_orbit\<close>, is rounded up.
\<close>

definition interpolate_mee_length :: "real \<Rightarrow> nat \<Rightarrow> nat" where
  "interpolate_mee_length sweep seg_per_orbit =
     nat \<lceil>sweep / (2 * pi) * real seg_per_orbit\<rceil>"

section \<open>Sample inputs\<close>

definition sample_env :: "int collaborators" where
  "sample_env = \<lparr>MU_EARTH = 5, MU_MOON = 2,
     batch_mee_to_cartesian = (\<lambda>b mu. map (map (\<lambda>x. x * mu)) b),
     batch_cartesian_to_mee = (\<lambda>b mu. map (map (\<lambda>x. x + mu)) b)\<rparr>"

definition sample_params :: "(int, int) Params" where
  "sample_params = \<lparr>moon_ephem_evaluate = (\<lambda>t. [t, t + 1, 0, 0, 0, 7])\<rparr>"

definition sample_cfg :: "string \<Rightarrow> int SimConfig" where
  "sample_cfg law = \<lparr>steering_law = law, y_target = [11, 12, 13, 14, 15]\<rparr>"

definition sample_y :: "int array2" where
  "sample_y = [[1, 2, 3, 4, 5, 6], [7, 8, 9, 10, 11, 12]]"

definition real_env :: "real collaborators" where
  "real_env = \<lparr>MU_EARTH = 1, MU_MOON = 1,
     batch_mee_to_cartesian = (\<lambda>b mu. b),
     batch_cartesian_to_mee = (\<lambda>b mu. b)\<rparr>"

text \<open>
  A sample of the floating-point arithmetic: the double nearest to \<open>2\<pi>\<close>, and the floor of
  the exact quotient. At the final true longitudes 3 and 9 of the sample histories, that
  is what the floor division of the library returns, in single and in double precision:
  \<^verbatim>\<open>3.0 // (2 * np.pi)\<close> is \<^verbatim>\<open>0.0\<close> and \<^verbatim>\<open>9.0 // (2 * np.pi)\<close> is \<^verbatim>\<open>1.0\<close>.
\<close>

definition sample_arith :: float_arith where
  "sample_arith = \<lparr>floor_divide = (\<lambda>a b. of_int \<lfloor>a / b\<rfloor>),
     two_pi = 884279719003555 / 140737488355328\<rparr>"

definition keep_samples :: "real interpolator" where
  "keep_samples t mee seg_per_orbit = (t, mee)"

definition gray_cm :: colormap where
  "gray_cm x = RGBA x x x 1"

section \<open>The element plot: what is drawn\<close>

lemma bind_err_Inr [simp]: "bind_err (Inr v) f = f v"
  by (simp add: bind_err_def)

lemma bind_err_Inl [simp]: "bind_err (Inl e) f = Inl e"
  by (simp add: bind_err_def)

lemma bind_err_eq_Inr: "bind_err r f = Inr b \<longleftrightarrow> (\<exists>v. r = Inr v \<and> f v = Inr b)"
  by (cases r) simp_all

lemma update_in_range [simp]: "(if i < length r then r[i := v] else r) = r[i := v]"
  by (simp add: list_update_beyond)



lemma set_target_cols_returns:
  "\<forall>i \<in> set is. i < length tgt \<Longrightarrow> \<forall>r \<in> set yt. r \<noteq> [] \<Longrightarrow>
     set_target_cols tgt is yt = Inr (map (\<lambda>r. fold (\<lambda>i r. r[i := tgt ! i]) is r) yt)"
proof (induction "is" arbitrary: yt)
  case Nil
  then show ?case by (simp add: map_idI)
next
  case (Cons i "is")
  have "set_col i (tgt ! i) yt = Inr (map (\<lambda>r. r[i := tgt ! i]) yt)"
    using Cons.prems(2) by (auto simp: set_col_def)
  moreover have "\<forall>r \<in> set (map (\<lambda>r. r[i := tgt ! i]) yt). r \<noteq> []"
    using Cons.prems(2) by simp
  ultimately show ?case
    using Cons.IH [of "map (\<lambda>r. r[i := tgt ! i]) yt"] Cons.prems(1)
    by (simp add: py_index_def comp_def)
qed

lemma upt_5: "[0..<5] = [0, 1, 2, 3, 4::nat]"
  by (simp add: upt_rec)

lemma fold_zero_row:
  assumes tgt: "5 \<le> length tgt"
  shows "fold (\<lambda>i r. r[i := tgt ! i]) [0..<5] (replicate n 0) = const_row tgt n"
proof (rule nth_equalityI)
  show "length (fold (\<lambda>i r. r[i := tgt ! i]) [0..<5] (replicate n 0)) = length (const_row tgt n)"
    using tgt by (simp add: const_row_def upt_5)
next
  fix i
  assume "i < length (fold (\<lambda>i r. r[i := tgt ! i]) [0..<5] (replicate n (0::'a)))"
  then have i: "i < n" by (simp add: upt_5)
  consider "i = 0" | "i = 1" | "i = 2" | "i = 3" | "i = 4" | "5 \<le> i"
    by arith
  then show "fold (\<lambda>i r. r[i := tgt ! i]) [0..<5] (replicate n 0) ! i = const_row tgt n ! i"
    using i tgt by cases (simp_all add: const_row_def upt_5 nth_append)
qed


lemma constant_target_returns:
  assumes "5 \<le> length (y_target cfg)" and "\<forall>r \<in> set y. r \<noteq> []"
  shows "constant_target cfg y = Inr (map (\<lambda>r. const_row (y_target cfg) (length r)) y)"
proof -
  have "set_target_cols (y_target cfg) [0..<5] (zeros_like y) =
        Inr (map (\<lambda>r. fold (\<lambda>i r. r[i := y_target cfg ! i]) [0..<5] r) (zeros_like y))"
    using assms by (intro set_target_cols_returns) (auto simp: zeros_like_def)
  then show ?thesis
    using assms(1) by (simp add: constant_target_def zeros_like_def comp_def fold_zero_row)
qed

lemma const_row_length [simp]: "5 \<le> length tgt \<Longrightarrow> length (const_row tgt w) = w"
  by (simp add: const_row_def)




lemma sequence_err_Inr: "sequence_err (map Inr xs) = Inr xs"
  by (induction xs) simp_all

lemma sequence_err_map2:
  "sequence_err (map (\<lambda>(x, y). Inr (f x y)) ps) = Inr (map (\<lambda>(x, y). f x y) ps)"
  by (induction ps) auto

lemma row_sub_same_length:
  "length r = length s \<Longrightarrow> broadcast1 (\<lambda>x y. Inr (x - y)) r s = Inr (map2 (-) r s)"
  by (simp add: broadcast1_def sequence_err_map2)

lemma sequence_err_rows:
  "map length a = map length b \<Longrightarrow>
     sequence_err (map2 (broadcast1 (\<lambda>x y. Inr (x - y))) a b) = Inr (map2 (map2 (-)) a b)"
proof (induction a arbitrary: b)
  case Nil
  then show ?case by simp
next
  case (Cons r a)
  then obtain s b' where b: "b = s # b'" by (cases b) auto
  with Cons.prems have "length r = length s" and "map length a = map length b'" by simp_all
  with Cons.IH [of b'] b show ?case by (simp add: row_sub_same_length)
qed

lemma array_sub_same_shape:
  assumes "map length a = map length b"
  shows "array_sub a b = Inr (map2 (map2 (-)) a b)"
proof -
  from assms have "length a = length b" by (rule map_eq_imp_length_eq)
  with sequence_err_rows [OF assms] show ?thesis
    unfolding array_sub_def by (subst broadcast1_def) simp
qed

lemma sub_one_col0_Inr:
  "sub_one_col0 y = Inr y' \<longleftrightarrow>
     (\<forall>r \<in> set y. r \<noteq> []) \<and> y' = map (\<lambda>r. r[0 := r ! 0 - 1]) y"
proof -
  have "map2 (\<lambda>v r. if r \<noteq> [] then r[0 := v] else r) (map f y) y = map (\<lambda>r. r[0 := f r]) y"
    for f :: "'a list \<Rightarrow> 'a"
    by (induction y) simp_all
  then show ?thesis
    by (auto simp: sub_one_col0_def get_col_def set_col_vec_def)
qed



lemma plot_elements_mee_fixed:
  "steering_law cfg \<noteq> ''bbq_law'' \<Longrightarrow>
     plot_elements_mee env t y cfg params wrt_moon =
       bind_err (constant_target cfg y) (\<lambda>yt.
         Inr \<lparr>plotted_y = y, plotted_y_target = yt, titlestr = title_of wrt_moon\<rparr>)"
  by (simp add: plot_elements_mee_def)

lemma plot_elements_mee_moving_earth:
  "steering_law cfg = ''bbq_law'' \<Longrightarrow> \<not> wrt_moon \<Longrightarrow>
     plot_elements_mee env t y cfg params wrt_moon =
       Inr \<lparr>plotted_y = y,
            plotted_y_target =
              batch_cartesian_to_mee env (map (moon_ephem_evaluate params) t) (MU_EARTH env),
            titlestr = title_of wrt_moon\<rparr>"
  by (simp add: plot_elements_mee_def vmap_def)

lemma plot_elements_mee_moving_moon:
  "steering_law cfg = ''bbq_law'' \<Longrightarrow> wrt_moon \<Longrightarrow>
     plot_elements_mee env t y cfg params wrt_moon =
       bind_err (moon_relative env (batch_mee_to_cartesian env y (MU_EARTH env))
                   (map (moon_ephem_evaluate params) t)) (\<lambda>y'.
       bind_err (constant_target cfg y') (\<lambda>yt.
         Inr \<lparr>plotted_y = y', plotted_y_target = yt, titlestr = title_of wrt_moon\<rparr>))"
  by (simp add: plot_elements_mee_def vmap_def)

lemma moon_relative_same_shape:
  assumes "map length cart_state = map length moon_state"
    and "\<forall>r \<in> set (batch_cartesian_to_mee env (map2 (map2 (-)) cart_state moon_state) (MU_MOON env)). r \<noteq> []"
  shows "moon_relative env cart_state moon_state =
     Inr (map (\<lambda>r. r[0 := r ! 0 - 1])
           (batch_cartesian_to_mee env (map2 (map2 (-)) cart_state moon_state) (MU_MOON env)))"
  using assms(2) by (simp add: moon_relative_def array_sub_same_shape [OF assms(1)] sub_one_col0_Inr)

text \<open>
  Claim C1. If the steering law is not \<^verbatim>\<open>"bbq_law"\<close>, the target history is one constant row
  repeated for every sample of the history: the entries of \<^verbatim>\<open>cfg.y_target\<close> (followed by
  zeros where the history is wider than five columns), whatever the times, the ephemeris
  and the converters are. If the steering law is \<^verbatim>\<open>"bbq_law"\<close> and \<^verbatim>\<open>wrt_moon\<close> is false, the
  target history is the Moon's Cartesian ephemeris state at every sample, converted to
  elements with the Earth's gravitational parameter. The constant row is \<^verbatim>\<open>cfg.y_target\<close>
  itself under a history of five columns, and \<^verbatim>\<open>cfg.y_target\<close> with one zero after it
  under a history of six.
\<close>

theorem target_mode_selection:
  "(steering_law cfg \<noteq> ''bbq_law'' \<longrightarrow> 5 \<le> length (y_target cfg) \<longrightarrow>
      0 < w \<longrightarrow> (\<forall>r \<in> set y. length r = w) \<longrightarrow>
      plot_elements_mee env t y cfg params wrt_moon =
        Inr \<lparr>plotted_y = y,
             plotted_y_target = replicate (length y) (const_row (y_target cfg) w),
             titlestr = title_of wrt_moon\<rparr>) \<and>
   (steering_law cfg = ''bbq_law'' \<longrightarrow> \<not> wrt_moon \<longrightarrow>
      plot_elements_mee env t y cfg params wrt_moon =
        Inr \<lparr>plotted_y = y,
             plotted_y_target =
               batch_cartesian_to_mee env (map (moon_ephem_evaluate params) t) (MU_EARTH env),
             titlestr = title_of wrt_moon\<rparr>) \<and>
   (length (y_target cfg) = 5 \<longrightarrow>
      const_row (y_target cfg) 5 = y_target cfg \<and>
      const_row (y_target cfg) 6 = y_target cfg @ [0])"
proof (intro conjI impI)
  assume "length (y_target cfg) = 5"
  then show "const_row (y_target cfg) 5 = y_target cfg"
    and "const_row (y_target cfg) 6 = y_target cfg @ [0]"
    by (simp_all add: const_row_def)
next
  assume law: "steering_law cfg \<noteq> ''bbq_law''" and tgt: "5 \<le> length (y_target cfg)"
    and w: "0 < w" and rect: "\<forall>r \<in> set y. length r = w"
  from w rect have ne: "\<forall>r \<in> set y. r \<noteq> []" by auto
  from rect have "map (\<lambda>r. const_row (y_target cfg) (length r)) y =
      replicate (length y) (const_row (y_target cfg) w)"
    by (simp add: map_replicate_const [symmetric] cong: map_cong)
  with constant_target_returns [OF tgt ne]
  show "plot_elements_mee env t y cfg params wrt_moon =
        Inr \<lparr>plotted_y = y,
             plotted_y_target = replicate (length y) (const_row (y_target cfg) w),
             titlestr = title_of wrt_moon\<rparr>"
    by (simp add: plot_elements_mee_fixed [OF law])
next
  assume "steering_law cfg = ''bbq_law''" and "\<not> wrt_moon"
  then show "plot_elements_mee env t y cfg params wrt_moon =
        Inr \<lparr>plotted_y = y,
             plotted_y_target =
               batch_cartesian_to_mee env (map (moon_ephem_evaluate params) t) (MU_EARTH env),
             titlestr = title_of wrt_moon\<rparr>"
    by (rule plot_elements_mee_moving_earth)
qed


theorem target_mode_selection_witness:
  "plot_elements_mee sample_env [100, 200] sample_y
     (sample_cfg ''q_law'') sample_params True =
     Inr \<lparr>plotted_y = [[1, 2, 3, 4, 5, 6], [7, 8, 9, 10, 11, 12]],
          plotted_y_target = [[11, 12, 13, 14, 15, 0], [11, 12, 13, 14, 15, 0]],
          titlestr = ''Modified Equinoctial Elements (Selenocentric)''\<rparr> \<and>
   plot_elements_mee sample_env [100, 200] sample_y
     (sample_cfg ''bbq_law'') sample_params False =
     Inr \<lparr>plotted_y = [[1, 2, 3, 4, 5, 6], [7, 8, 9, 10, 11, 12]],
          plotted_y_target = [[105, 106, 5, 5, 5, 12], [205, 206, 5, 5, 5, 12]],
          titlestr = ''Modified Equinoctial Elements (Geocentric)''\<rparr>"
  using target_mode_selection [of "sample_cfg ''q_law''" 6
      sample_y sample_env "[100, 200]" sample_params True]
    target_mode_selection [of "sample_cfg ''bbq_law''" 6
      sample_y sample_env "[100, 200]" sample_params False]
  by (simp add: sample_cfg_def sample_env_def sample_params_def sample_y_def const_row_def title_of_def)


text \<open>
  Claim C2. With the steering law \<^verbatim>\<open>"bbq_law"\<close> and \<^verbatim>\<open>wrt_moon\<close> true, for an ephemeris of
  the shape of the Cartesian history, the plotted element history is the reference
  shift of the input as the specification words it: to Cartesian in the Earth's frame,
  minus the Moon's state sample by sample, back to elements with the Moon's
  gravitational parameter, minus 1 in the first element of every sample.
\<close>

theorem reference_shift_algorithm:
  assumes "steering_law cfg = ''bbq_law''" and "wrt_moon"
    and "map length (batch_mee_to_cartesian env y (MU_EARTH env)) =
         map length (map (moon_ephem_evaluate params) t)"
    and "\<forall>r \<in> set (reference_shift env y (map (moon_ephem_evaluate params) t)). r \<noteq> []"
    and "5 \<le> length (y_target cfg)"
  shows "\<exists>yt. plot_elements_mee env t y cfg params wrt_moon =
           Inr \<lparr>plotted_y = reference_shift env y (map (moon_ephem_evaluate params) t),
                plotted_y_target = yt, titlestr = title_of wrt_moon\<rparr>"
proof -
  let ?moon = "map (moon_ephem_evaluate params) t"
  let ?cart = "batch_mee_to_cartesian env y (MU_EARTH env)"
  from assms(4) have ne: "\<forall>r \<in> set (batch_cartesian_to_mee env (map2 (map2 (-)) ?cart ?moon) (MU_MOON env)). r \<noteq> []"
    by (simp add: reference_shift_def)
  have rel: "moon_relative env ?cart ?moon = Inr (reference_shift env y ?moon)"
    using moon_relative_same_shape [OF assms(3) ne] by (simp add: reference_shift_def)
  from constant_target_returns [OF assms(5) assms(4)] rel show ?thesis
    by (simp add: plot_elements_mee_moving_moon [OF assms(1,2)])
qed

theorem reference_shift_algorithm_witness:
  "\<exists>yt. plot_elements_mee sample_env [100, 200] sample_y
     (sample_cfg ''bbq_law'') sample_params True =
     Inr \<lparr>plotted_y = [[-94, -89, 17, 22, 27, 25], [-164, -159, 47, 52, 57, 55]],
          plotted_y_target = yt,
          titlestr = ''Modified Equinoctial Elements (Selenocentric)''\<rparr>"
  using reference_shift_algorithm [of "sample_cfg ''bbq_law''" True sample_env
      sample_y sample_params "[100, 200]"]
  by (simp add: sample_cfg_def sample_env_def sample_params_def sample_y_def reference_shift_def title_of_def)





section \<open>The trajectory plot: segments, colours, orbit count\<close>

lemma round_half_even_of_int [simp]: "round_half_even (of_int k) = k"
  by (simp add: round_half_even_def)

lemma float64_of_nat_below:
  assumes "n < 2 ^ p" and "p \<le> 53"
  shows "float64 (real n) = real n"
proof (cases "n = 0")
  case True
  then show ?thesis by (simp add: float64_def)
next
  case False
  then have pos: "0 < real n" and ge1: "1 \<le> real n" by simp_all
  define e where "e = \<lfloor>log 2 (real n)\<rfloor>"
  have "0 \<le> log 2 (real n)" using ge1 by simp
  then have e0: "0 \<le> e" by (simp add: e_def)
  have "real n < 2 ^ p" using assms(1) by (metis of_nat_less_iff of_nat_numeral of_nat_power)
  then have "log 2 (real n) < log 2 (2 ^ p)"
    using pos by (subst log_less_cancel_iff) simp_all
  also have "log 2 ((2::real) ^ p) = real p" by (rule log_pow_cancel) simp_all
  finally have "e < int p" by (simp add: e_def floor_less_iff)
  with assms(2) have "e \<le> 52" by simp
  with e0 obtain s :: nat where s: "52 - e = int s"
    using nonneg_int_cases [of "52 - e"] by auto
  then have se: "52 - real_of_int e = real s" and es: "real_of_int e - 52 = - real s"
    by linarith+
  have pw: "(2::real) powr real s = 2 ^ s"
    by (rule powr_realpow) simp
  have up: "2 powr (52 - real_of_int e) = 2 ^ s"
    by (simp only: se pw)
  have down: "2 powr (real_of_int e - 52) = 1 / 2 ^ s"
    by (simp only: es powr_minus pw inverse_eq_divide)
  have "real n * 2 ^ s = of_int (int n * 2 ^ s)" by simp
  then have "round_half_even (real n * 2 ^ s) = int n * 2 ^ s"
    by (simp only: round_half_even_of_int)
  with pos show ?thesis
    by (simp add: float64_def e_def [symmetric] Let_def up down)
qed

lemma float64_of_small_nat: "n \<le> 1000 \<Longrightarrow> float64 (real n) = real n"
  by (rule float64_of_nat_below [of n 10]) simp_all


lemma float64_normal:
  assumes "2 powr of_int e \<le> x" and "x < 2 powr (of_int e + 1)"
  shows "float64 x =
     of_int (round_half_even (x * 2 powr (52 - of_int e))) * 2 powr (of_int e - 52)"
proof -
  have "(0::real) < 2 powr of_int e" by simp
  with assms(1) have pos: "0 < x" by linarith
  have "of_int e \<le> log 2 x" using assms(1) pos by (simp add: le_log_iff)
  moreover have "log 2 x < of_int e + 1" using assms(2) pos by (simp add: log_less_iff)
  ultimately have "\<lfloor>log 2 x\<rfloor> = e" by (simp add: floor_eq_iff)
  with pos show ?thesis by (simp add: float64_def)
qed

lemma step_58: "float64 (58 / 50) = 5224175567749775 / 2 ^ 52"
proof -
  have "float64 (58 / 50) =
      of_int (round_half_even (58 / 50 * 2 powr (52 - of_int 0))) * 2 powr (of_int 0 - 52)"
    by (rule float64_normal) simp_all
  also have "(2::real) powr (52 - of_int 0) = 2 ^ 52"
    using powr_realpow [of 2 52] by simp
  also have "(2::real) powr (of_int 0 - 52) = 1 / 2 ^ 52"
    using powr_realpow [of 2 52] by (simp add: powr_minus inverse_eq_divide)
  also have "round_half_even (58 / 50 * 2 ^ 52) = 5224175567749775"
    by (simp add: round_half_even_def Let_def)
  finally show ?thesis by simp
qed

lemma idx_breakpoints_1000: "idx_breakpoints 1000 = map (\<lambda>i. 20 * i) [0..<51]"
proof -
  have stop: "float64 (real 1000) = real 1000"
    by (rule float64_of_small_nat) simp
  have "real 1000 / real 50 = real 20" by simp
  then have step: "float64 (real 1000 / real 50) = real 20"
    using float64_of_small_nat [of 20] by simp
  have "map (\<lambda>i. nat \<lfloor>float64 (real i * real 20)\<rfloor>) [0..<50] = map (\<lambda>i. 20 * i) [0..<50]"
  proof (rule map_cong [OF refl])
    fix i :: nat
    assume "i \<in> set [0..<50]"
    then have "i * 20 \<le> 1000" by simp
    then have "float64 (real (i * 20)) = real (i * 20)" by (rule float64_of_small_nat)
    then have "float64 (real i * real 20) = real (20 * i)" by (simp add: mult.commute)
    then show "nat \<lfloor>float64 (real i * real 20)\<rfloor> = 20 * i" by (simp only: floor_of_nat nat_int)
  qed
  moreover have "[0..<51] = [0..<50] @ [50::nat]" by (simp add: upt_rec)
  moreover have "nat \<lfloor>real 1000\<rfloor> = 1000" by (simp only: floor_of_nat nat_int)
  ultimately show ?thesis
    by (simp only: idx_breakpoints_def NUM_SEGMENTS_def Let_def stop step map_append list.map)
       simp
qed

text \<open>
  Where the step is not a whole number, the doubles show: for 58 points the step is the
  double nearest to 1.16, 25 steps are the double just under 29, and breakpoint 25 is 28.
\<close>

lemma product_58: "float64 (25 * (5224175567749775 / 2 ^ 52)) = 8162774324609023 / 2 ^ 48"
proof -
  have "float64 (25 * (5224175567749775 / 2 ^ 52)) =
      of_int (round_half_even (25 * (5224175567749775 / 2 ^ 52) * 2 powr (52 - of_int 4))) *
        2 powr (of_int 4 - 52)"
  proof (rule float64_normal)
    have "(2::real) powr of_int 4 = 2 ^ 4" using powr_realpow [of 2 4] by simp
    then show "2 powr of_int 4 \<le> (25 * (5224175567749775 / 2 ^ 52) :: real)" by simp
    have "(2::real) powr (of_int 4 + 1) = 2 ^ 5" using powr_realpow [of 2 5] by simp
    then show "(25 * (5224175567749775 / 2 ^ 52) :: real) < 2 powr (of_int 4 + 1)" by simp
  qed
  also have "(2::real) powr (52 - of_int 4) = 2 ^ 48"
    using powr_realpow [of 2 48] by simp
  also have "(2::real) powr (of_int 4 - 52) = 1 / 2 ^ 48"
    using powr_realpow [of 2 48] by (simp add: powr_minus inverse_eq_divide)
  also have "round_half_even (25 * (5224175567749775 / 2 ^ 52) * 2 ^ 48) = 8162774324609023"
    by (simp add: round_half_even_def Let_def)
  finally show ?thesis by simp
qed

lemma idx_breakpoints_58: "idx_breakpoints 58 ! 25 = 28 \<and> 25 * 58 div NUM_SEGMENTS = 29"
proof -
  have stop: "float64 58 = 58"
    using float64_of_small_nat [of 58] by simp
  have "idx_breakpoints 58 ! 25 = nat \<lfloor>float64 (25 * float64 (float64 58 / 50))\<rfloor>"
    by (simp add: idx_breakpoints_def Let_def nth_append NUM_SEGMENTS_def del: upt_Suc)
  also have "\<dots> = nat \<lfloor>8162774324609023 / 2 ^ 48 :: real\<rfloor>"
    by (simp only: stop step_58 product_58)
  also have "\<dots> = 28"
    by simp
  finally show ?thesis by (simp add: NUM_SEGMENTS_def)
qed

lemma idx_breakpoints_1000_nth: "i \<le> 50 \<Longrightarrow> idx_breakpoints 1000 ! i = 20 * i"
  by (simp add: idx_breakpoints_1000 del: upt_Suc)

lemma plot_slice_1000:
  assumes "length path = 1000" and "i < 50"
  shows "plot_slice path i = drop (20 * i) (take (20 * i + 21) path)"
proof -
  have b: "20 * (i + 1) + 1 = 20 * i + 21" by simp
  from assms(2) have "i \<le> 50" and "i + 1 \<le> 50" by simp_all
  then have "plot_slice path i = drop (20 * i) (take (20 * (i + 1) + 1) path)"
    by (simp only: plot_slice_def py_slice_def idx_breakpoints_1000_nth assms(1))
  then show ?thesis by (simp only: b)
qed

lemma take_drop_extend:
  assumes "a \<le> b"
  shows "take a xs @ drop a (take b xs) = take b xs"
proof -
  from assms have "take a xs = take a (take b xs)" by (simp add: min_absorb1)
  then show ?thesis by (simp only: append_take_drop_id)
qed

lemma concat_segments_upto:
  "take 21 path @ concat (map (\<lambda>i. drop (20 * i + 1) (take (20 * i + 21) path)) [1..<Suc n]) =
     take (20 * n + 21) path"
proof (induction n)
  case 0
  then show ?case by simp
next
  case (Suc n)
  define f where "f = (\<lambda>i. drop (20 * i + 1) (take (20 * i + 21) path))"
  have a: "20 * Suc n + 1 = 20 * n + 21" and b: "20 * Suc n + 21 = 20 * n + 41" by simp_all
  have "take 21 path @ concat (map f [1..<Suc (Suc n)]) =
        (take 21 path @ concat (map f [1..<Suc n])) @ f (Suc n)"
    by (simp del: upt_Suc add: upt_Suc_append)
  also have "\<dots> = take (20 * n + 21) path @ f (Suc n)"
    using Suc.IH by (simp only: f_def)
  also have "f (Suc n) = drop (20 * n + 21) (take (20 * n + 41) path)"
    by (simp only: f_def a b)
  also have "take (20 * n + 21) path @ drop (20 * n + 21) (take (20 * n + 41) path) =
        take (20 * n + 41) path"
    by (rule take_drop_extend) simp
  finally show ?case by (simp only: f_def b)
qed

lemma tl_plot_slice_1000:
  assumes "length path = 1000" and "i < 50"
  shows "tl (plot_slice path i) = drop (20 * i + 1) (take (20 * i + 21) path)"
  by (simp only: plot_slice_1000 [OF assms] tl_drop drop_Suc [symmetric] Suc_eq_plus1 drop_drop)

lemma concat_segments_1000:
  assumes "length path = 1000"
  shows "concat (hd (trajectory_segments path) # map tl (tl (trajectory_segments path))) = path"
proof -
  have upt: "[0..<50] = 0 # [1..<Suc 49]" by (simp add: upt_rec)
  have "trajectory_segments path = plot_slice path 0 # map (plot_slice path) [1..<Suc 49]"
    by (simp only: trajectory_segments_def NUM_SEGMENTS_def upt list.map)
  then have "concat (hd (trajectory_segments path) # map tl (tl (trajectory_segments path))) =
      plot_slice path 0 @ concat (map (\<lambda>i. tl (plot_slice path i)) [1..<Suc 49])"
    by (simp add: comp_def del: upt_Suc)
  also have "map (\<lambda>i. tl (plot_slice path i)) [1..<Suc 49] =
      map (\<lambda>i. drop (20 * i + 1) (take (20 * i + 21) path)) [1..<Suc 49]"
    by (rule map_cong [OF refl]) (simp add: tl_plot_slice_1000 [OF assms] del: upt_Suc)
  also have "plot_slice path 0 = take 21 path"
    using plot_slice_1000 [OF assms, of 0] by simp
  also have "take 21 path @ concat (map (\<lambda>i. drop (20 * i + 1) (take (20 * i + 21) path)) [1..<Suc 49]) =
      take (20 * 49 + 21) path"
    by (rule concat_segments_upto)
  also have "\<dots> = path" using assms by simp
  finally show ?thesis .
qed

lemma drop_take_nth:
  assumes "b \<le> length xs"
  shows "drop a (take b xs) = map ((!) xs) [a..<b]"
proof (rule nth_equalityI)
  show "length (drop a (take b xs)) = length (map ((!) xs) [a..<b])"
    using assms by simp
next
  fix i
  assume "i < length (drop a (take b xs))"
  then have "i < b - a" by simp
  then show "drop a (take b xs) ! i = map ((!) xs) [a..<b] ! i"
    using assms by simp
qed

lemma trajectory_segments_nth:
  "i < 50 \<Longrightarrow> trajectory_segments path ! i = plot_slice path i"
  by (simp add: trajectory_segments_def NUM_SEGMENTS_def del: upt_Suc)

lemma segment_inner_1000:
  assumes "length path = 1000" and "i < 49"
  shows "plot_slice path i = map ((!) path) [20 * i..<20 * i + 21]"
proof -
  from assms(2) have i: "i < 50" by simp
  have "drop (20 * i) (take (20 * i + 21) path) = map ((!) path) [20 * i..<20 * i + 21]"
    using assms by (intro drop_take_nth) simp
  with plot_slice_1000 [OF assms(1) i] show ?thesis by simp
qed

lemma segment_last_1000:
  assumes "length path = 1000"
  shows "plot_slice path 49 = map ((!) path) [980..<1000]"
proof -
  have "take 1001 path = take 1000 path" using assms by simp
  moreover have "drop 980 (take 1000 path) = map ((!) path) [980..<1000]"
    using assms by (intro drop_take_nth) simp
  ultimately show ?thesis using plot_slice_1000 [OF assms, of 49] by simp
qed

lemma segment_lengths_1000:
  assumes "length path = 1000"
  shows "sum_list (map length (trajectory_segments path)) = 1049"
proof -
  have "[0..<50] = [0..<49] @ [49::nat]" by (simp add: upt_rec)
  then have "map length (trajectory_segments path) =
      map (\<lambda>i. length (plot_slice path i)) [0..<49] @ [length (plot_slice path 49)]"
    by (simp add: trajectory_segments_def NUM_SEGMENTS_def comp_def del: upt_Suc)
  also have "map (\<lambda>i. length (plot_slice path i)) [0..<49] = map (\<lambda>i. 21) [0..<49]"
    by (rule map_cong [OF refl]) (simp add: segment_inner_1000 [OF assms] del: upt_Suc)
  also have "length (plot_slice path 49) = 20"
    by (simp add: segment_last_1000 [OF assms])
  finally show ?thesis by (simp add: map_replicate_const sum_list_replicate del: upt_Suc)
qed

lemma segment_overlap_1000:
  assumes "length path = 1000" and "0 < i" and "i < 50"
  shows "hd (plot_slice path i) = last (plot_slice path (i - 1))"
proof -
  from assms obtain j where j: "i = Suc j" and prev: "j < 49"
    by (cases i) simp_all
  have "[20 * j..<20 * j + 21] \<noteq> []" by simp
  then have "last (map ((!) path) [20 * j..<20 * j + 21]) = path ! last [20 * j..<20 * j + 21]"
    by (rule last_map)
  also have "last [20 * j..<20 * j + 21] = 20 * j + 20"
    by (subst last_upt) simp_all
  finally have "last (map ((!) path) [20 * j..<20 * j + 21]) = path ! (20 * j + 20)" .
  moreover have "20 * i = 20 * j + 20" and "i - 1 = j" using j by simp_all
  ultimately have l: "last (plot_slice path (i - 1)) = path ! (20 * i)"
    by (simp only: segment_inner_1000 [OF assms(1) prev])
  have h: "hd (plot_slice path i) = path ! (20 * i)"
  proof (cases "i < 49")
    case True
    then show ?thesis by (simp add: segment_inner_1000 [OF assms(1)] hd_map upt_rec [of "20 * i"])
  next
    case False
    with assms(3) have "i = 49" by simp
    then show ?thesis by (simp add: segment_last_1000 [OF assms(1)] hd_map upt_rec [of 980])
  qed
  from l h show ?thesis by simp
qed

text \<open>
  Claim C3, as amended. For a path of 1000 points and the 50 segments of the function,
  the 51 breakpoints are \<open>0, 20, \<dots>, 1000\<close>; segment \<open>i < 49\<close> runs from breakpoint \<open>i\<close>
  to breakpoint \<open>i + 1\<close>, both included; the last segment runs from point 980 to the
  last point, 999 (breakpoint 50 is one past the end, and the slice is cut there); the
  lengths of the segments add up to \<open>1000 + 49\<close>; the first point of every segment but
  the first is the last point of the segment before it; and the segments, each but the
  first without that first point, make up the path, in order.
\<close>

theorem segmenter_coverage:
  assumes "length path = 1000"
  shows "idx_breakpoints (length path) = map (\<lambda>i. 20 * i) [0..<51] \<and>
         length (trajectory_segments path) = 50 \<and>
         (\<forall>i<49. trajectory_segments path ! i =
            map ((!) path) [idx_breakpoints (length path) ! i..<
                            idx_breakpoints (length path) ! (i + 1) + 1]) \<and>
         trajectory_segments path ! 49 = map ((!) path) [980..<1000] \<and>
         sum_list (map length (trajectory_segments path)) = length path + (NUM_SEGMENTS - 1) \<and>
         (\<forall>i. 0 < i \<and> i < 50 \<longrightarrow>
            hd (trajectory_segments path ! i) = last (trajectory_segments path ! (i - 1))) \<and>
         concat (hd (trajectory_segments path) # map tl (tl (trajectory_segments path))) = path"
proof (intro conjI allI impI)
  show "idx_breakpoints (length path) = map (\<lambda>i. 20 * i) [0..<51]"
    by (simp only: assms idx_breakpoints_1000)
  show "length (trajectory_segments path) = 50"
    by (simp add: trajectory_segments_def NUM_SEGMENTS_def)
  show "trajectory_segments path ! 49 = map ((!) path) [980..<1000]"
    by (simp add: trajectory_segments_nth segment_last_1000 [OF assms])
  show "sum_list (map length (trajectory_segments path)) = length path + (NUM_SEGMENTS - 1)"
    by (simp add: segment_lengths_1000 [OF assms] assms NUM_SEGMENTS_def)
  show "concat (hd (trajectory_segments path) # map tl (tl (trajectory_segments path))) = path"
    by (rule concat_segments_1000 [OF assms])
next
  fix i :: nat
  assume i: "i < 49"
  then have "idx_breakpoints 1000 ! i = 20 * i" and "idx_breakpoints 1000 ! (i + 1) + 1 = 20 * i + 21"
    by (simp_all add: idx_breakpoints_1000_nth)
  then have "map ((!) path) [idx_breakpoints (length path) ! i..<
                      idx_breakpoints (length path) ! (i + 1) + 1] =
      map ((!) path) [20 * i..<20 * i + 21]"
    by (simp only: assms)
  moreover from i have "trajectory_segments path ! i = plot_slice path i"
    by (simp add: trajectory_segments_nth)
  ultimately show "trajectory_segments path ! i =
      map ((!) path) [idx_breakpoints (length path) ! i..<
                      idx_breakpoints (length path) ! (i + 1) + 1]"
    by (simp only: segment_inner_1000 [OF assms i])
next
  fix i :: nat
  assume "0 < i \<and> i < 50"
  then have i: "0 < i" "i < 50" and prev: "i - 1 < 50" by arith+
  show "hd (trajectory_segments path ! i) = last (trajectory_segments path ! (i - 1))"
    by (simp only: trajectory_segments_nth [OF i(2)] trajectory_segments_nth [OF prev]
        segment_overlap_1000 [OF assms i])
qed

text \<open>
  The claim as it stands has every segment run to its upper breakpoint, included. The
  last segment of a path of 1000 points has 20 points, not the 21 from breakpoint 980 to
  breakpoint 1000.
\<close>

theorem segmenter_coverage_counterexample:
  "length (trajectory_segments [0..<1000::nat] ! 49) = 20 \<and>
   length [idx_breakpoints 1000 ! 49..<idx_breakpoints 1000 ! 50 + 1] = 21 \<and>
   trajectory_segments [0..<1000::nat] ! 49 \<noteq>
     map ((!) [0..<1000]) [idx_breakpoints 1000 ! 49..<idx_breakpoints 1000 ! 50 + 1]"
proof -
  have a: "length (trajectory_segments [0..<1000::nat] ! 49) = 20"
    by (simp add: trajectory_segments_nth plot_slice_1000)
  have b: "length [idx_breakpoints 1000 ! 49..<idx_breakpoints 1000 ! 50 + 1] = 21"
    by (simp add: idx_breakpoints_1000_nth)
  from a b have "length (trajectory_segments [0..<1000::nat] ! 49) \<noteq>
      length (map ((!) [0..<1000::nat]) [idx_breakpoints 1000 ! 49..<idx_breakpoints 1000 ! 50 + 1])"
    by simp
  then have "trajectory_segments [0..<1000::nat] ! 49 \<noteq>
     map ((!) [0..<1000]) [idx_breakpoints 1000 ! 49..<idx_breakpoints 1000 ! 50 + 1]"
    by (rule contrapos_nn) (simp only:)
  with a b show ?thesis by (intro conjI)
qed

theorem segmenter_coverage_witness:
  "length [0..<1000::nat] = 1000 \<and>
   idx_breakpoints (length [0..<1000::nat]) = map (\<lambda>i. 20 * i) [0..<51] \<and>
   trajectory_segments [0..<1000::nat] ! 49 = map ((!) [0..<1000]) [980..<1000] \<and>
   sum_list (map length (trajectory_segments [0..<1000::nat])) = 1049 \<and>
   concat (hd (trajectory_segments [0..<1000::nat]) # map tl (tl (trajectory_segments [0..<1000]))) =
     [0..<1000]"
  using segmenter_coverage [of "[0..<1000::nat]"]
  by (simp add: NUM_SEGMENTS_def del: upt_Suc)

lemma sequence_err_eq_Inr: "sequence_err rs = Inr ls \<longleftrightarrow> rs = map Inr ls"
proof (induction rs arbitrary: ls)
  case Nil
  then show ?case by auto
next
  case (Cons r rs)
  show ?case
  proof (cases r)
    case (Inl e)
    then show ?thesis by auto
  next
    case (Inr v)
    with Cons.IH show ?thesis by (cases ls) (auto simp: bind_err_eq_Inr)
  qed
qed

lemma plot_segment_Inr:
  "plot_segment cm plot_kwargs cart i = Inr l \<Longrightarrow>
     line_kwargs l = actual_plot_kwargs cm plot_kwargs i"
  by (auto simp: plot_segment_def Let_def bind_err_eq_Inr)

lemma plot_segment_returns:
  assumes "\<forall>r \<in> set cart. r \<noteq> []"
  shows "\<exists>l. plot_segment cm plot_kwargs cart i = Inr l"
proof -
  have "set (plot_slice cart i) \<subseteq> set cart"
    unfolding plot_slice_def py_slice_def
    by (meson set_drop_subset set_take_subset subset_trans)
  with assms have "\<not> (\<exists>r \<in> set (plot_slice cart i). r = [])" by auto
  then show ?thesis by (simp add: plot_segment_def Let_def get_col_def)
qed

lemma plot_trajectory_mee_Inr:
  assumes "plot_trajectory_mee arith env interpolate_mee cm t mee plot_kwargs = Inr fig"
  shows "mee \<noteq> [] \<and> last mee \<noteq> [] \<and>
         n_orbits fig = floor_divide arith (last (last mee)) (two_pi arith) \<and>
         map line_kwargs (lines fig) = map (actual_plot_kwargs cm plot_kwargs) [0..<NUM_SEGMENTS]"
proof -
  obtain t_interp mee_interp where ip: "interpolate_mee t mee 100 = (t_interp, mee_interp)"
    by (cases "interpolate_mee t mee 100")
  define cart where "cart = batch_mee_to_cartesian env mee_interp (MU_EARTH env)"
  from assms ip obtain L ls where L: "last_entry mee = Inr L"
    and ls: "sequence_err (map (plot_segment cm plot_kwargs cart) [0..<NUM_SEGMENTS]) = Inr ls"
    and fig: "fig = \<lparr>n_orbits = floor_divide arith L (two_pi arith), lines = ls\<rparr>"
    by (auto simp: plot_trajectory_mee_def bind_err_eq_Inr Let_def cart_def)
  from L have mee: "mee \<noteq> []" "last mee \<noteq> []" and L': "L = last (last mee)"
    by (auto simp: last_entry_def split: if_splits)
  from ls have eq: "map (plot_segment cm plot_kwargs cart) [0..<NUM_SEGMENTS] = map Inr ls"
    by (simp only: sequence_err_eq_Inr)
  then have len: "length ls = NUM_SEGMENTS"
    by (metis length_map length_upt minus_nat.diff_0)
  have "map line_kwargs ls = map (actual_plot_kwargs cm plot_kwargs) [0..<NUM_SEGMENTS]"
  proof (rule nth_equalityI)
    show "length (map line_kwargs ls) = length (map (actual_plot_kwargs cm plot_kwargs) [0..<NUM_SEGMENTS])"
      using len by simp
  next
    fix i
    assume "i < length (map line_kwargs ls)"
    with len have i: "i < NUM_SEGMENTS" by simp
    from eq have "map (plot_segment cm plot_kwargs cart) [0..<NUM_SEGMENTS] ! i = map Inr ls ! i"
      by simp
    with i len have "plot_segment cm plot_kwargs cart i = Inr (ls ! i)"
      by (simp del: upt_Suc)
    from plot_segment_Inr [OF this] i len
    show "map line_kwargs ls ! i = map (actual_plot_kwargs cm plot_kwargs) [0..<NUM_SEGMENTS] ! i"
      by (simp del: upt_Suc)
  qed
  with mee L' fig show ?thesis by simp
qed

lemma sequence_err_returns:
  "\<forall>x \<in> set xs. \<exists>l. g x = Inr l \<Longrightarrow> \<exists>ls. sequence_err (map g xs) = Inr ls"
  by (induction xs) auto

lemma plot_trajectory_mee_returns:
  assumes "mee \<noteq> []" and "last mee \<noteq> []"
    and "\<forall>r \<in> set (batch_mee_to_cartesian env (snd (interpolate_mee t mee 100)) (MU_EARTH env)). r \<noteq> []"
  shows "\<exists>fig. plot_trajectory_mee arith env interpolate_mee cm t mee plot_kwargs = Inr fig"
proof -
  obtain t_interp mee_interp where ip: "interpolate_mee t mee 100 = (t_interp, mee_interp)"
    by (cases "interpolate_mee t mee 100")
  define cart where "cart = batch_mee_to_cartesian env mee_interp (MU_EARTH env)"
  from assms(3) ip have "\<forall>r \<in> set cart. r \<noteq> []" by (simp add: cart_def)
  then have "\<forall>i \<in> set [0..<NUM_SEGMENTS]. \<exists>l. plot_segment cm plot_kwargs cart i = Inr l"
    by (blast intro: plot_segment_returns)
  from sequence_err_returns [OF this] obtain ls where
    "sequence_err (map (plot_segment cm plot_kwargs cart) [0..<NUM_SEGMENTS]) = Inr ls" ..
  with assms(1,2) ip show ?thesis
    by (simp add: plot_trajectory_mee_def last_entry_def Let_def cart_def)
qed

lemma sample_trajectory_returns:
  "\<exists>fig. plot_trajectory_mee sample_arith real_env keep_samples gray_cm [0] [[1, 0, 0, 0, 0, 3]] kw = Inr fig"
  by (rule plot_trajectory_mee_returns) (simp_all add: real_env_def keep_samples_def)





lemma actual_plot_kwargs_colour:
  "actual_plot_kwargs cm plot_kwargs i ''color'' =
     Some (case plot_kwargs ''color'' of
             Some c \<Rightarrow> c
           | None \<Rightarrow> cm (real i / real NUM_SEGMENTS))"
  by (simp add: actual_plot_kwargs_def default_plot_kwargs_def map_add_def split: option.splits)

text \<open>
  Claim C7, as amended. Two returning runs with the same colour map and the same
  \<^verbatim>\<open>plot_kwargs\<close>, on any two histories (and any interpolator and converters), give
  every line the same keyword arguments; there are 50 lines; and the colour of line \<open>i\<close>
  is the caller's \<^verbatim>\<open>plot_kwargs["color"]\<close> if there is one, and the colour map at
  \<open>i / 50\<close> otherwise.
\<close>

theorem segment_colour_noninterference:
  assumes "plot_trajectory_mee arith env interpolate_mee cm t mee plot_kwargs = Inr fig"
    and "plot_trajectory_mee arith' env' interpolate_mee' cm t' mee' plot_kwargs = Inr fig'"
  shows "map line_kwargs (lines fig) = map line_kwargs (lines fig') \<and>
         length (lines fig) = NUM_SEGMENTS \<and>
         (\<forall>i < NUM_SEGMENTS. line_kwargs (lines fig ! i) ''color'' =
            Some (case plot_kwargs ''color'' of
                    Some c \<Rightarrow> c
                  | None \<Rightarrow> cm (real i / real NUM_SEGMENTS)))"
proof -
  from plot_trajectory_mee_Inr [OF assms(1)]
  have a: "map line_kwargs (lines fig) = map (actual_plot_kwargs cm plot_kwargs) [0..<NUM_SEGMENTS]"
    by blast
  from plot_trajectory_mee_Inr [OF assms(2)]
  have b: "map line_kwargs (lines fig') = map (actual_plot_kwargs cm plot_kwargs) [0..<NUM_SEGMENTS]"
    by blast
  from a have len: "length (lines fig) = NUM_SEGMENTS"
    by (metis length_map length_upt minus_nat.diff_0)
  have "line_kwargs (lines fig ! i) = actual_plot_kwargs cm plot_kwargs i" if "i < NUM_SEGMENTS" for i
  proof -
    from a have "map line_kwargs (lines fig) ! i =
        map (actual_plot_kwargs cm plot_kwargs) [0..<NUM_SEGMENTS] ! i" by simp
    with that len show ?thesis by (simp del: upt_Suc)
  qed
  with a b len show ?thesis by (simp add: actual_plot_kwargs_colour)
qed

theorem segment_colour_noninterference_witness:
  "\<exists>fig fig'.
      plot_trajectory_mee sample_arith real_env keep_samples gray_cm [0] [[1, 0, 0, 0, 0, 3]] Map.empty = Inr fig \<and>
      plot_trajectory_mee sample_arith real_env keep_samples gray_cm [0, 1] [[2, 0, 0, 0, 0, 1], [2, 0, 0, 0, 0, 9]]
        Map.empty = Inr fig' \<and>
      map line_kwargs (lines fig) = map line_kwargs (lines fig') \<and>
      line_kwargs (lines fig ! 7) ''color'' = Some (gray_cm (7 / 50))"
proof -
  from sample_trajectory_returns obtain fig where
    e: "plot_trajectory_mee sample_arith real_env keep_samples gray_cm [0] [[1, 0, 0, 0, 0, 3]] Map.empty = Inr fig"
    by blast
  have "\<exists>fig'. plot_trajectory_mee sample_arith real_env keep_samples gray_cm [0, 1]
      [[2, 0, 0, 0, 0, 1], [2, 0, 0, 0, 0, 9]] Map.empty = Inr fig'"
    by (rule plot_trajectory_mee_returns) (simp_all add: real_env_def keep_samples_def)
  then obtain fig' where e': "plot_trajectory_mee sample_arith real_env keep_samples gray_cm [0, 1]
      [[2, 0, 0, 0, 0, 1], [2, 0, 0, 0, 0, 9]] Map.empty = Inr fig'"
    by blast
  from segment_colour_noninterference [OF e e']
  have "map line_kwargs (lines fig) = map line_kwargs (lines fig')"
    and "line_kwargs (lines fig ! 7) ''color'' = Some (gray_cm (7 / 50))"
    by (simp_all add: NUM_SEGMENTS_def)
  with e e' show ?thesis by blast
qed

text \<open>
  The claim as it stands has the colour of segment \<open>i\<close> be the colour map at \<open>i / 50\<close>.
  Under \<^verbatim>\<open>plot_kwargs = {"color": "red"}\<close> line 7 is red.
\<close>

theorem segment_colour_counterexample:
  "colour_of (plot_trajectory_mee sample_arith real_env keep_samples gray_cm [0] [[1, 0, 0, 0, 0, 3]]
      [''color'' \<mapsto> Name ''red'']) 7 = Inr (Some (Name ''red'')) \<and>
   Name ''red'' \<noteq> gray_cm (real 7 / real NUM_SEGMENTS)"
proof -
  from sample_trajectory_returns obtain fig where
    e: "plot_trajectory_mee sample_arith real_env keep_samples gray_cm [0] [[1, 0, 0, 0, 0, 3]]
          [''color'' \<mapsto> Name ''red''] = Inr fig"
    by blast
  from plot_trajectory_mee_Inr [OF e]
  have a: "map line_kwargs (lines fig) =
      map (actual_plot_kwargs gray_cm [''color'' \<mapsto> Name ''red'']) [0..<NUM_SEGMENTS]"
    by blast
  then have len: "length (lines fig) = NUM_SEGMENTS"
    by (metis length_map length_upt minus_nat.diff_0)
  from a have "map line_kwargs (lines fig) ! 7 =
      map (actual_plot_kwargs gray_cm [''color'' \<mapsto> Name ''red'']) [0..<NUM_SEGMENTS] ! 7"
    by simp
  with len have "line_kwargs (lines fig ! 7) = actual_plot_kwargs gray_cm [''color'' \<mapsto> Name ''red''] 7"
    by (simp add: NUM_SEGMENTS_def del: upt_Suc)
  then have "line_kwargs (lines fig ! 7) ''color'' = Some (Name ''red'')"
    by (simp add: actual_plot_kwargs_colour)
  with e show ?thesis by (simp add: colour_of_def gray_cm_def)
qed

text \<open>
  Claim C8. For \<open>seg_per_orbit = 100\<close>, the value \<^verbatim>\<open>plot_trajectory_mee\<close> passes, and a sweep
  of the true longitude of \<open>6\<pi>\<close>, the interpolator of the specification gives 300
  samples.
\<close>

theorem interpolator_density:
  "interpolate_mee_length (6 * pi) 100 = 300"
proof -
  have "6 * pi / (2 * pi) * real 100 = 300" by simp
  then show ?thesis by (simp only: interpolate_mee_length_def) simp
qed

text \<open>
  A history that coincides with the Moon's: the relative state is zero in every entry,
  and the plotted history is what the converter makes of the all-zero state, minus 1 in
  the first element.
\<close>

lemma array_sub_self:
  fixes a :: "'a::group_add array2"
  shows "array_sub a a = Inr (zeros_like a)"
proof -
  have "map2 (-) r r = replicate (length r) 0" for r :: "'a list"
    by (induction r) simp_all
  then have "map2 (map2 (-)) a a = zeros_like a"
    unfolding zeros_like_def by (induction a) simp_all
  with array_sub_same_shape [of a a] show ?thesis by simp
qed

lemma moon_relative_coincident:
  fixes cart_state :: "'a::{group_add,one} array2"
  shows "moon_relative env cart_state cart_state =
     sub_one_col0 (batch_cartesian_to_mee env (zeros_like cart_state) (MU_MOON env))"
  by (simp add: moon_relative_def array_sub_self)

end
